theory Spec2Isabelle
  imports Complex_Main "HOL-Library.Sublist" "HOL-Library.Word"
begin

section \<open>The prediction endpoint of the Taka note detection API (api.py)\<close>

subsection \<open>Python values\<close>

text \<open>
  A Python \<^verbatim>\<open>float\<close>: a finite value (a real number; the doubles are a subset of them and
  compare as the reals do), the two infinities, or NaN.
\<close>

datatype pyfloat = Fin real | PInf | NInf | NaN

text \<open>Python's \<^verbatim>\<open>a <= b\<close> on floats: every comparison with NaN is false.\<close>

fun float_le :: "pyfloat \<Rightarrow> pyfloat \<Rightarrow> bool" where
  "float_le NaN _ = False"
| "float_le _ NaN = False"
| "float_le NInf _ = True"
| "float_le _ PInf = True"
| "float_le (Fin a) (Fin b) = (a \<le> b)"
| "float_le PInf _ = False"
| "float_le _ NInf = False"

text \<open>A raised Python exception, as far as the handler looks at it: \<^verbatim>\<open>str(e)\<close>.\<close>

datatype py_exception = Exception (str: string)

type_synonym bytes = "8 word list"

text \<open>\<^verbatim>\<open>s.startswith(p)\<close>\<close>

definition startswith :: "string \<Rightarrow> string \<Rightarrow> bool" where
  "startswith s p = (take (length p) s = p)"

text \<open>
  \<^verbatim>\<open>xs[i]\<close> on a Python list: a negative index counts from the end, an index out of
  range raises IndexError.
\<close>

definition py_index :: "'a list \<Rightarrow> int \<Rightarrow> py_exception + 'a" where
  "py_index xs i =
     (let n = int (length xs); j = (if i < 0 then i + n else i)
      in if 0 \<le> j \<and> j < n then Inr (xs ! nat j)
         else Inl (Exception ''list index out of range''))"

subsection \<open>Response models\<close>

record BoundingBox =
  x1 :: pyfloat
  y1 :: pyfloat
  x2 :: pyfloat
  y2 :: pyfloat

record Detection =
  class_name :: string
  confidence :: pyfloat
  bounding_box :: BoundingBox

record PredictionResponse =
  success :: bool
  num_detections :: int
  detections :: "Detection list"
  message :: "string option"

record HTTPException =
  status_code :: nat
  detail :: string

definition class_names :: "string list" where
  "class_names = [''100 tk'', ''1000 tk'', ''200 tk'', ''500 tk'', ''objects'']"

subsection \<open>The external collaborators\<close>

text \<open>
  The uploaded file: its declared content type (possibly absent) and what
  \<^verbatim>\<open>await file.read()\<close> gives.
\<close>

record UploadFile =
  content_type :: "string option"
  read :: "py_exception + bytes"

text \<open>
  One row of the engine's box tensor: the corner coordinates, the score and the class id
  (the entry of \<^verbatim>\<open>cls\<close> after \<^verbatim>\<open>.astype(int)\<close>). The attributes \<^verbatim>\<open>xyxy\<close>,
  \<^verbatim>\<open>conf\<close> and \<^verbatim>\<open>cls\<close> of a \<^verbatim>\<open>Boxes\<close> object are column views of the same rows.
\<close>

record box_row =
  row_x1 :: pyfloat
  row_y1 :: pyfloat
  row_x2 :: pyfloat
  row_y2 :: pyfloat
  row_conf :: pyfloat
  row_cls :: int

record Boxes =
  data :: "box_row list"

definition xyxy :: "Boxes \<Rightarrow> pyfloat list list" where
  "xyxy b = map (\<lambda>r. [row_x1 r, row_y1 r, row_x2 r, row_y2 r]) (data b)"

definition conf :: "Boxes \<Rightarrow> pyfloat list" where
  "conf b = map row_conf (data b)"

definition cls :: "Boxes \<Rightarrow> int list" where
  "cls b = map row_cls (data b)"

text \<open>An element of the list \<^verbatim>\<open>model.predict\<close> returns; \<^verbatim>\<open>boxes\<close> may be \<^verbatim>\<open>None\<close>.\<close>

record Results =
  boxes :: "Boxes option"

text \<open>
  The loaded model, called as
  \<^verbatim>\<open>model.predict(source=image_array, conf=confidence, save=False, verbose=False)\<close>:
  a function of the pixel array and the threshold that returns the result list or raises.
\<close>

type_synonym 'arr YOLO = "'arr \<Rightarrow> pyfloat \<Rightarrow> py_exception + Results list"

text \<open>
  What the handler reads from its surroundings: the global \<^verbatim>\<open>model\<close> (\<^verbatim>\<open>None\<close> until
  the weights are loaded), \<^verbatim>\<open>Image.open(io.BytesIO(contents))\<close> and \<^verbatim>\<open>np.array(image)\<close>.
\<close>

record ('img, 'arr) env =
  model :: "'arr YOLO option"
  Image_open :: "bytes \<Rightarrow> py_exception + 'img"
  np_array :: "'img \<Rightarrow> py_exception + 'arr"

text \<open>The calls the handler makes to the outside, in the order it makes them.\<close>

datatype event = FileRead | ImageOpen | NpArray | ModelPredict

subsection \<open>The handler \<^verbatim>\<open>predict\<close>\<close>

text \<open>
  The body of \<^verbatim>\<open>for i in range(len(boxes))\<close>: the index list still to visit and the
  list \<^verbatim>\<open>detections\<close> built so far. An exception leaves the loop.
\<close>

fun detections_loop ::
  "pyfloat list list \<Rightarrow> pyfloat list \<Rightarrow> int list \<Rightarrow> nat list \<Rightarrow> Detection list
    \<Rightarrow> py_exception + Detection list" where
  "detections_loop bxs confidences class_ids [] dets = Inr dets"
| "detections_loop bxs confidences class_ids (i # rest) dets =
     (case py_index class_names (class_ids ! i) of
        Inl e \<Rightarrow> Inl e
      | Inr name \<Rightarrow>
          detections_loop bxs confidences class_ids rest
            (dets @ [\<lparr>class_name = name,
                      confidence = confidences ! i,
                      bounding_box = \<lparr>x1 = bxs ! i ! 0, y1 = bxs ! i ! 1,
                                       x2 = bxs ! i ! 2, y2 = bxs ! i ! 3\<rparr>\<rparr>]))"

text \<open>
  The extraction of the detections from \<^verbatim>\<open>results\<close>: \<^verbatim>\<open>results[0]\<close>, then the
  loop when \<^verbatim>\<open>result.boxes\<close> is neither \<^verbatim>\<open>None\<close> nor empty.
\<close>

definition extract_detections :: "Results list \<Rightarrow> py_exception + Detection list" where
  "extract_detections results =
     (case py_index results 0 of
        Inl e \<Rightarrow> Inl e
      | Inr result \<Rightarrow>
          (case boxes result of
             None \<Rightarrow> Inr []
           | Some b \<Rightarrow>
               if length (data b) > 0
               then detections_loop (xyxy b) (conf b) (cls b) [0..<length (xyxy b)] []
               else Inr []))"

text \<open>The body of the \<^verbatim>\<open>try\<close> block, with the outside calls it made.\<close>

definition predict_try ::
  "('img, 'arr) env \<Rightarrow> 'arr YOLO \<Rightarrow> UploadFile \<Rightarrow> pyfloat
    \<Rightarrow> (py_exception + PredictionResponse) \<times> event list" where
  "predict_try w m file threshold =
     (case read file of
        Inl e \<Rightarrow> (Inl e, [FileRead])
      | Inr contents \<Rightarrow>
     (case Image_open w contents of
        Inl e \<Rightarrow> (Inl e, [FileRead, ImageOpen])
      | Inr img \<Rightarrow>
     (case np_array w img of
        Inl e \<Rightarrow> (Inl e, [FileRead, ImageOpen, NpArray])
      | Inr image_array \<Rightarrow>
     (case m image_array threshold of
        Inl e \<Rightarrow> (Inl e, [FileRead, ImageOpen, NpArray, ModelPredict])
      | Inr results \<Rightarrow>
     (case extract_detections results of
        Inl e \<Rightarrow> (Inl e, [FileRead, ImageOpen, NpArray, ModelPredict])
      | Inr dets \<Rightarrow>
          (Inr \<lparr>success = True,
                num_detections = int (length dets),
                detections = dets,
                message = Some ''Detection completed successfully''\<rparr>,
           [FileRead, ImageOpen, NpArray, ModelPredict]))))))"

text \<open>
  \<^verbatim>\<open>predict(file, confidence)\<close>: the response, a raised \<^verbatim>\<open>HTTPException\<close> on the left,
  and the outside calls made. The parameter \<^verbatim>\<open>confidence\<close> is called \<open>threshold\<close> here.
\<close>

definition predict ::
  "('img, 'arr) env \<Rightarrow> UploadFile \<Rightarrow> pyfloat
    \<Rightarrow> (HTTPException + PredictionResponse) \<times> event list" where
  "predict w file threshold =
     (case model w of
        None \<Rightarrow>
          (Inl \<lparr>status_code = 503,
                detail = ''Model not loaded. Please ensure model weights are available.''\<rparr>,
           [])
      | Some m \<Rightarrow>
          if (case content_type file of
                None \<Rightarrow> True
              | Some ct \<Rightarrow> ct = [] \<or> \<not> startswith ct ''image/'')
          then
            (Inl \<lparr>status_code = 400,
                  detail = ''Invalid file type. Please upload an image file (JPEG/PNG)''\<rparr>,
             [])
          else if \<not> (float_le (Fin 0) threshold \<and> float_le threshold (Fin 1))
          then
            (Inl \<lparr>status_code = 400,
                  detail = ''Confidence threshold must be between 0.0 and 1.0''\<rparr>,
             [])
          else
            (case predict_try w m file threshold of
               (Inl e, calls) \<Rightarrow>
                 (Inl \<lparr>status_code = 500,
                       detail = ''Error processing image: '' @ str e\<rparr>,
                  calls)
             | (Inr response, calls) \<Rightarrow> (Inr response, calls)))"

subsection \<open>Sample services and uploads\<close>

text \<open>
  A decoder that rejects an empty body, a service without weights and one serving a given
  engine, an engine that returns given rows, and uploads of several content types.
\<close>

definition pil_open :: "bytes \<Rightarrow> py_exception + nat" where
  "pil_open contents =
     (if contents = [] then Inl (Exception ''cannot identify image file'')
      else Inr (length contents))"

definition weights_missing :: "(nat, nat) env" where
  "weights_missing = \<lparr>model = None, Image_open = pil_open, np_array = Inr\<rparr>"

definition serving :: "nat YOLO \<Rightarrow> (nat, nat) env" where
  "serving m = \<lparr>model = Some m, Image_open = pil_open, np_array = Inr\<rparr>"

definition note_row :: "real \<Rightarrow> int \<Rightarrow> box_row" where
  "note_row score c =
     \<lparr>row_x1 = Fin 10, row_y1 = Fin 20, row_x2 = Fin 110, row_y2 = Fin 70,
      row_conf = Fin score, row_cls = c\<rparr>"

definition engine_returning :: "box_row list \<Rightarrow> nat YOLO" where
  "engine_returning rows image_array threshold = Inr [\<lparr>boxes = Some \<lparr>data = rows\<rparr>\<rparr>]"

definition jpeg_upload :: UploadFile where
  "jpeg_upload = \<lparr>content_type = Some ''image/jpeg'', read = Inr [255, 216, 255]\<rparr>"

definition png_upload :: UploadFile where
  "png_upload = \<lparr>content_type = Some ''image/png'', read = Inr [255, 216, 255]\<rparr>"

definition corrupt_upload :: UploadFile where
  "corrupt_upload = \<lparr>content_type = Some ''image/jpeg'', read = Inr []\<rparr>"

definition text_upload :: UploadFile where
  "text_upload = \<lparr>content_type = Some ''text/plain'', read = Inr [104, 105]\<rparr>"

definition two_notes :: "box_row list" where
  "two_notes = [note_row 0.4 0, note_row 0.9 3]"

definition two_notes_response :: PredictionResponse where
  "two_notes_response =
     \<lparr>success = True, num_detections = 2,
      detections =
        [\<lparr>class_name = ''100 tk'', confidence = Fin 0.4,
          bounding_box = \<lparr>x1 = Fin 10, y1 = Fin 20, x2 = Fin 110, y2 = Fin 70\<rparr>\<rparr>,
         \<lparr>class_name = ''500 tk'', confidence = Fin 0.9,
          bounding_box = \<lparr>x1 = Fin 10, y1 = Fin 20, x2 = Fin 110, y2 = Fin 70\<rparr>\<rparr>],
      message = Some ''Detection completed successfully''\<rparr>"

section \<open>Auxiliary facts\<close>

lemmas fixture_defs =
  pil_open_def weights_missing_def serving_def note_row_def engine_returning_def
  jpeg_upload_def png_upload_def corrupt_upload_def text_upload_def

lemmas handler_defs =
  predict_def predict_try_def extract_detections_def py_index_def xyxy_def conf_def cls_def
  class_names_def startswith_def

lemma threshold_in_range_iff:
  "(float_le (Fin 0) c \<and> float_le c (Fin 1)) \<longleftrightarrow> (\<exists>t. c = Fin t \<and> 0 \<le> t \<and> t \<le> 1)"
  by (cases c) auto

lemma py_index_error:
  "py_index xs i = Inl e \<Longrightarrow> e = Exception ''list index out of range''"
  by (auto simp: py_index_def Let_def split: if_splits)

lemma class_names_out_of_range:
  "5 \<le> c \<or> c < - 5 \<Longrightarrow> py_index class_names c = Inl (Exception ''list index out of range'')"
  by (auto simp: py_index_def class_names_def Let_def)

lemma py_index_head: "py_index (x # xs) 0 = Inr x"
  by (simp add: py_index_def Let_def)

lemma py_index_nil: "py_index [] 0 = Inl (Exception ''list index out of range'')"
  by (simp add: py_index_def Let_def)

lemma detections_loop_acc:
  "detections_loop B C I ixs dets = map_sum id ((@) dets) (detections_loop B C I ixs [])"
proof (induction ixs arbitrary: dets)
  case Nil
  show ?case by simp
next
  case (Cons i rest)
  show ?case
  proof (cases "py_index class_names (I ! i)")
    case (Inl e)
    then show ?thesis by simp
  next
    case (Inr name)
    let ?d = "\<lparr>class_name = name, confidence = C ! i,
               bounding_box = \<lparr>x1 = B ! i ! 0, y1 = B ! i ! 1, x2 = B ! i ! 2, y2 = B ! i ! 3\<rparr>\<rparr>"
    have "detections_loop B C I (i # rest) dets = detections_loop B C I rest (dets @ [?d])"
      using Inr by simp
    also have "\<dots> = map_sum id ((@) (dets @ [?d])) (detections_loop B C I rest [])"
      by (rule Cons.IH)
    also have "\<dots> = map_sum id ((@) dets) (map_sum id ((@) [?d]) (detections_loop B C I rest []))"
      by (cases "detections_loop B C I rest []") simp_all
    also have "map_sum id ((@) [?d]) (detections_loop B C I rest []) = detections_loop B C I rest [?d]"
      by (rule Cons.IH [symmetric])
    also have "detections_loop B C I rest [?d] = detections_loop B C I (i # rest) []"
      using Inr by simp
    finally show ?thesis .
  qed
qed

lemma detections_loop_raises:
  "i \<in> set ixs \<Longrightarrow> py_index class_names (I ! i) = Inl e \<Longrightarrow>
   detections_loop B C I ixs dets = Inl (Exception ''list index out of range'')"
proof (induction ixs arbitrary: dets)
  case Nil
  then show ?case by simp
next
  case (Cons j rest)
  show ?case
  proof (cases "py_index class_names (I ! j)")
    case (Inl e')
    then show ?thesis using py_index_error [OF Inl] by simp
  next
    case (Inr name)
    with Cons.prems have "i \<in> set rest" by auto
    then show ?thesis using Inr Cons.IH Cons.prems(2) by simp
  qed
qed

lemma detections_loop_returns:
  "detections_loop B C I ixs [] = Inr out \<Longrightarrow>
   length out = length ixs \<and>
   (\<forall>k<length ixs.
      py_index class_names (I ! (ixs ! k)) = Inr (class_name (out ! k)) \<and>
      confidence (out ! k) = C ! (ixs ! k) \<and>
      bounding_box (out ! k) =
        \<lparr>x1 = B ! (ixs ! k) ! 0, y1 = B ! (ixs ! k) ! 1,
         x2 = B ! (ixs ! k) ! 2, y2 = B ! (ixs ! k) ! 3\<rparr>)"
proof (induction ixs arbitrary: out)
  case Nil
  then show ?case by simp
next
  case (Cons i rest)
  from Cons.prems obtain name where name: "py_index class_names (I ! i) = Inr name"
    by (cases "py_index class_names (I ! i)") simp_all
  let ?d = "\<lparr>class_name = name, confidence = C ! i,
             bounding_box = \<lparr>x1 = B ! i ! 0, y1 = B ! i ! 1, x2 = B ! i ! 2, y2 = B ! i ! 3\<rparr>\<rparr>"
  have "detections_loop B C I rest [?d] = Inr out"
    using Cons.prems name by simp
  then obtain out' where out': "detections_loop B C I rest [] = Inr out'" and out: "out = ?d # out'"
    using detections_loop_acc [of B C I rest "[?d]"]
    by (cases "detections_loop B C I rest []") auto
  note IH = Cons.IH [OF out']
  show ?case
  proof (intro conjI allI impI)
    show "length out = length (i # rest)" using IH out by simp
  next
    fix k assume "k < length (i # rest)"
    then show "py_index class_names (I ! ((i # rest) ! k)) = Inr (class_name (out ! k))"
      using IH out name by (cases k) auto
  next
    fix k assume "k < length (i # rest)"
    then show "confidence (out ! k) = C ! ((i # rest) ! k)"
      using IH out by (cases k) auto
  next
    fix k assume "k < length (i # rest)"
    then show "bounding_box (out ! k) =
        \<lparr>x1 = B ! ((i # rest) ! k) ! 0, y1 = B ! ((i # rest) ! k) ! 1,
         x2 = B ! ((i # rest) ! k) ! 2, y2 = B ! ((i # rest) ! k) ! 3\<rparr>"
      using IH out by (cases k) auto
  qed
qed

lemma predict_returns:
  assumes "predict w file threshold = (Inr p, calls)"
  shows "\<exists>m ct contents img image_array results dets.
           model w = Some m \<and> content_type file = Some ct \<and> startswith ct ''image/'' \<and>
           float_le (Fin 0) threshold \<and> float_le threshold (Fin 1) \<and>
           read file = Inr contents \<and> Image_open w contents = Inr img \<and>
           np_array w img = Inr image_array \<and> m image_array threshold = Inr results \<and>
           extract_detections results = Inr dets \<and>
           p = \<lparr>success = True, num_detections = int (length dets), detections = dets,
                message = Some ''Detection completed successfully''\<rparr> \<and>
           calls = [FileRead, ImageOpen, NpArray, ModelPredict]"
  using assms
  by (auto simp: predict_def predict_try_def split: option.splits if_splits sum.splits prod.splits)


lemma startswith_nonempty: "startswith ct ''image/'' \<Longrightarrow> ct \<noteq> []"
  by (auto simp: startswith_def)

lemma predict_reaches_engine:
  assumes "model w = Some m" "content_type file = Some ct" "startswith ct ''image/''"
    and "float_le (Fin 0) threshold" "float_le threshold (Fin 1)"
    and "read file = Inr contents" "Image_open w contents = Inr img"
    and "np_array w img = Inr image_array" "m image_array threshold = Inr results"
  shows "predict w file threshold =
           (case extract_detections results of
              Inl e \<Rightarrow>
                (Inl \<lparr>status_code = 500, detail = ''Error processing image: '' @ str e\<rparr>,
                 [FileRead, ImageOpen, NpArray, ModelPredict])
            | Inr dets \<Rightarrow>
                (Inr \<lparr>success = True, num_detections = int (length dets), detections = dets,
                      message = Some ''Detection completed successfully''\<rparr>,
                 [FileRead, ImageOpen, NpArray, ModelPredict]))"
  using assms startswith_nonempty [OF assms(3)]
  by (simp add: predict_def predict_try_def split: sum.splits)

lemma extract_detections_raises:
  assumes "boxes result = Some b" "r \<in> set (data b)" "5 \<le> row_cls r \<or> row_cls r < - 5"
  shows "extract_detections (result # others) = Inl (Exception ''list index out of range'')"
proof -
  from assms(2) obtain i where i: "i < length (data b)" "data b ! i = r"
    by (auto simp: in_set_conv_nth)
  have "py_index class_names (cls b ! i) = Inl (Exception ''list index out of range'')"
    using i assms(3) by (simp add: cls_def class_names_out_of_range)
  moreover have "i \<in> set [0..<length (xyxy b)]"
    using i by (simp add: xyxy_def)
  ultimately have "detections_loop (xyxy b) (conf b) (cls b) [0..<length (xyxy b)] [] =
      Inl (Exception ''list index out of range'')"
    by (rule detections_loop_raises [rotated])
  moreover have "data b \<noteq> []"
    using i(1) by auto
  ultimately show ?thesis
    using assms(1) by (simp add: extract_detections_def py_index_head)
qed

lemma extract_detections_returns:
  assumes "extract_detections results = Inr dets"
  shows "\<exists>result others. results = result # others \<and>
           (let rows = (case boxes result of None \<Rightarrow> [] | Some b \<Rightarrow> data b)
            in length dets = length rows \<and>
               (\<forall>i<length rows.
                  py_index class_names (row_cls (rows ! i)) = Inr (class_name (dets ! i)) \<and>
                  confidence (dets ! i) = row_conf (rows ! i) \<and>
                  bounding_box (dets ! i) =
                    \<lparr>x1 = row_x1 (rows ! i), y1 = row_y1 (rows ! i),
                     x2 = row_x2 (rows ! i), y2 = row_y2 (rows ! i)\<rparr>))"
proof (cases results)
  case Nil
  with assms show ?thesis by (simp add: extract_detections_def py_index_nil)
next
  case (Cons result others)
  show ?thesis
  proof (cases "boxes result")
    case None
    with assms Cons show ?thesis by (simp add: extract_detections_def py_index_head)
  next
    case (Some b)
    show ?thesis
    proof (cases "data b = []")
      case True
      with assms Cons Some show ?thesis by (simp add: extract_detections_def py_index_head)
    next
      case False
      with assms Cons Some
      have "detections_loop (xyxy b) (conf b) (cls b) [0..<length (xyxy b)] [] = Inr dets"
        by (simp add: extract_detections_def py_index_head)
      from detections_loop_returns [OF this]
      have "length dets = length (data b) \<and>
        (\<forall>i<length (data b).
           py_index class_names (row_cls (data b ! i)) = Inr (class_name (dets ! i)) \<and>
           confidence (dets ! i) = row_conf (data b ! i) \<and>
           bounding_box (dets ! i) =
             \<lparr>x1 = row_x1 (data b ! i), y1 = row_y1 (data b ! i),
              x2 = row_x2 (data b ! i), y2 = row_y2 (data b ! i)\<rparr>)"
        by (simp add: xyxy_def conf_def cls_def)
      with Cons Some show ?thesis by simp
    qed
  qed
qed

lemma startswith_prefix: "startswith s p \<longleftrightarrow> prefix p s"
  by (auto simp: startswith_def prefix_def) (metis append_take_drop_id)

lemma image_content_type:
  "content_type file = Some ct \<Longrightarrow> prefix ''image/'' ct \<Longrightarrow>
   \<not> (case content_type file of None \<Rightarrow> True
       | Some ct \<Rightarrow> ct = [] \<or> \<not> startswith ct ''image/'')"
  by (auto simp: startswith_prefix)

lemma two_notes_run:
  "predict (serving (engine_returning two_notes)) jpeg_upload (Fin 0.25) =
     (Inr two_notes_response, [FileRead, ImageOpen, NpArray, ModelPredict])"
  by (simp add: two_notes_def two_notes_response_def fixture_defs handler_defs)

lemma two_notes_png_run:
  "predict (serving (engine_returning two_notes)) png_upload (Fin 0.25) =
     (Inr two_notes_response, [FileRead, ImageOpen, NpArray, ModelPredict])"
  by (simp add: two_notes_def two_notes_response_def fixture_defs handler_defs)

section \<open>Properties of \<^verbatim>\<open>predict\<close>\<close>

text \<open>
  C1. When the global model is unset, every call of \<^verbatim>\<open>predict\<close> raises the 503
  exception, whatever the file and the threshold are, and it has made no outside call
  by then: no body read, no decoding, no engine invocation. No validation result can
  show either, since the outcome is the same for every content type and threshold.
\<close>

theorem predict_model_unset:
  "model w = None \<Longrightarrow>
     predict w file threshold =
       (Inl \<lparr>status_code = 503,
             detail = ''Model not loaded. Please ensure model weights are available.''\<rparr>,
        [])"
  by (simp add: predict_def)

theorem predict_model_unset_witness:
  "model weights_missing = None \<and>
   predict weights_missing jpeg_upload (Fin 0.25) =
     (Inl \<lparr>status_code = 503,
           detail = ''Model not loaded. Please ensure model weights are available.''\<rparr>,
      [])"
  using predict_model_unset [of weights_missing jpeg_upload "Fin 0.25"]
  by (simp add: weights_missing_def)

text \<open>
  C2, as amended. The handler does not check the class id; it indexes \<^verbatim>\<open>class_names\<close>
  with it. When the engine's first result holds a row whose class id \<open>c\<close> has
  \<open>5 \<le> c\<close> or \<open>c < -5\<close>, the lookup raises IndexError and the request fails with
  status 500 and the detail "Error processing image: list index out of range": no
  response is produced, so no detection is relabelled or dropped.
\<close>

theorem class_id_out_of_range_fails:
  assumes "model w = Some m" "content_type file = Some ct" "prefix ''image/'' ct"
    and "0 \<le> t" "t \<le> 1"
    and "read file = Inr contents" "Image_open w contents = Inr img"
    and "np_array w img = Inr image_array"
    and "m image_array (Fin t) = Inr (result # others)"
    and "boxes result = Some b" "r \<in> set (data b)"
    and "5 \<le> row_cls r \<or> row_cls r < - 5"
  shows "predict w file (Fin t) =
           (Inl \<lparr>status_code = 500,
                 detail = ''Error processing image: list index out of range''\<rparr>,
            [FileRead, ImageOpen, NpArray, ModelPredict])"
proof -
  have "startswith ct ''image/''"
    using assms(3) by (simp add: startswith_prefix)
  moreover have "float_le (Fin 0) (Fin t)" "float_le (Fin t) (Fin 1)"
    using assms(4,5) by simp_all
  moreover have "extract_detections (result # others) =
      Inl (Exception ''list index out of range'')"
    using assms(10-12) by (rule extract_detections_raises)
  ultimately show ?thesis
    using predict_reaches_engine [OF assms(1,2) _ _ _ assms(6-9)] by simp
qed

theorem class_id_out_of_range_fails_witness:
  "model (serving (engine_returning [note_row 0.4 0, note_row 0.9 7])) =
     Some (engine_returning [note_row 0.4 0, note_row 0.9 7]) \<and>
   content_type jpeg_upload = Some ''image/jpeg'' \<and> prefix ''image/'' ''image/jpeg'' \<and>
   note_row 0.9 7 \<in> set [note_row 0.4 0, note_row 0.9 7] \<and>
   (5 \<le> row_cls (note_row 0.9 7) \<or> row_cls (note_row 0.9 7) < - 5) \<and>
   predict (serving (engine_returning [note_row 0.4 0, note_row 0.9 7])) jpeg_upload (Fin 0.25) =
     (Inl \<lparr>status_code = 500,
           detail = ''Error processing image: list index out of range''\<rparr>,
      [FileRead, ImageOpen, NpArray, ModelPredict])"
  using class_id_out_of_range_fails
    [of "serving (engine_returning [note_row 0.4 0, note_row 0.9 7])"
        "engine_returning [note_row 0.4 0, note_row 0.9 7]"
        jpeg_upload "''image/jpeg''" "0.25" "[255, 216, 255]" 3 3
        "\<lparr>boxes = Some \<lparr>data = [note_row 0.4 0, note_row 0.9 7]\<rparr>\<rparr>" "[]"
        "\<lparr>data = [note_row 0.4 0, note_row 0.9 7]\<rparr>" "note_row 0.9 7"]
  by (simp add: fixture_defs)

text \<open>
  A class id from \<open>-5\<close> to \<open>-1\<close> is outside the label set but is not rejected:
  Python counts a negative index from the end of the list. The engine row with class id
  \<open>-1\<close> comes back in a 200 response, labelled "objects".
\<close>

theorem stray_class_id_labelled:
  "\<not> (0 \<le> (- 1 :: int) \<and> (- 1 :: int) < int (length class_names)) \<and>
   predict (serving (engine_returning [note_row 0.9 (- 1)])) jpeg_upload (Fin 0.25) =
     (Inr \<lparr>success = True, num_detections = 1,
           detections =
             [\<lparr>class_name = ''objects'', confidence = Fin 0.9,
               bounding_box = \<lparr>x1 = Fin 10, y1 = Fin 20, x2 = Fin 110, y2 = Fin 70\<rparr>\<rparr>],
           message = Some ''Detection completed successfully''\<rparr>,
      [FileRead, ImageOpen, NpArray, ModelPredict])"
  by (simp add: fixture_defs handler_defs)

text \<open>
  C3. The threshold check is inclusive at both ends. For a service with a loaded model
  (the readiness check runs first): a finite threshold \<open>t\<close> with \<open>0 \<le> t \<le> 1\<close>,
  the bounds included, passes, that is, with an image content type the handler goes on to
  read the upload and can only fail with status 500 from then on; every other threshold
  (below 0, above 1, infinite or NaN) makes the request fail with status 400 before any
  outside call, with the detail "Confidence threshold must be between 0.0 and 1.0" when the
  content type is an image type (otherwise the content type check has answered 400).
\<close>

theorem threshold_bounds_inclusive:
  assumes "model w = Some m"
  shows "if \<exists>t. threshold = Fin t \<and> 0 \<le> t \<and> t \<le> 1
         then \<forall>ct. content_type file = Some ct \<and> prefix ''image/'' ct \<longrightarrow>
                FileRead \<in> set (snd (predict w file threshold)) \<and>
                (\<forall>x. fst (predict w file threshold) = Inl x \<longrightarrow> status_code x = 500)
         else \<exists>x. predict w file threshold = (Inl x, []) \<and> status_code x = 400 \<and>
                (\<forall>ct. content_type file = Some ct \<and> prefix ''image/'' ct \<longrightarrow>
                   detail x = ''Confidence threshold must be between 0.0 and 1.0'')"
proof (cases "\<exists>t. threshold = Fin t \<and> 0 \<le> t \<and> t \<le> 1")
  case True
  then have range: "float_le (Fin 0) threshold \<and> float_le threshold (Fin 1)"
    by (simp add: threshold_in_range_iff)
  have "FileRead \<in> set (snd (predict w file threshold)) \<and>
        (\<forall>x. fst (predict w file threshold) = Inl x \<longrightarrow> status_code x = 500)"
    if "content_type file = Some ct" "prefix ''image/'' ct" for ct
  proof -
    note ct = image_content_type [OF that]
    have "predict w file threshold =
        (case predict_try w m file threshold of
           (Inl e, calls) \<Rightarrow>
             (Inl \<lparr>status_code = 500, detail = ''Error processing image: '' @ str e\<rparr>, calls)
         | (Inr response, calls) \<Rightarrow> (Inr response, calls))"
      using assms ct range by (simp add: predict_def)
    moreover have "FileRead \<in> set (snd (predict_try w m file threshold))"
      by (simp add: predict_try_def split: sum.splits)
    ultimately show ?thesis
      by (auto split: prod.splits sum.splits)
  qed
  with True show ?thesis by auto
next
  case False
  then have range: "\<not> (float_le (Fin 0) threshold \<and> float_le threshold (Fin 1))"
    by (simp add: threshold_in_range_iff)
  show ?thesis
  proof (cases "case content_type file of None \<Rightarrow> True
                | Some ct \<Rightarrow> ct = [] \<or> \<not> startswith ct ''image/''")
    case True
    then have "predict w file threshold =
        (Inl \<lparr>status_code = 400,
              detail = ''Invalid file type. Please upload an image file (JPEG/PNG)''\<rparr>, [])"
      using assms by (simp add: predict_def)
    moreover have "\<not> (content_type file = Some ct \<and> prefix ''image/'' ct)" for ct
      using True by (auto simp: startswith_prefix)
    ultimately show ?thesis
      using False by auto
  next
    case ok: False
    then have "predict w file threshold =
        (Inl \<lparr>status_code = 400,
              detail = ''Confidence threshold must be between 0.0 and 1.0''\<rparr>, [])"
      using assms range by (simp add: predict_def)
    then show ?thesis
      using False by auto
  qed
qed

theorem threshold_bounds_inclusive_witness:
  "model (serving (engine_returning [])) = Some (engine_returning []) \<and>
   content_type jpeg_upload = Some ''image/jpeg'' \<and> prefix ''image/'' ''image/jpeg'' \<and>
   FileRead \<in> set (snd (predict (serving (engine_returning [])) jpeg_upload (Fin 0))) \<and>
   FileRead \<in> set (snd (predict (serving (engine_returning [])) jpeg_upload (Fin 1))) \<and>
   (\<exists>x. predict (serving (engine_returning [])) jpeg_upload (Fin (- 0.0001)) = (Inl x, []) \<and>
        status_code x = 400 \<and>
        detail x = ''Confidence threshold must be between 0.0 and 1.0'') \<and>
   (\<exists>x. predict (serving (engine_returning [])) jpeg_upload (Fin 1.0001) = (Inl x, []) \<and>
        status_code x = 400 \<and>
        detail x = ''Confidence threshold must be between 0.0 and 1.0'') \<and>
   (\<exists>x. predict (serving (engine_returning [])) text_upload (Fin 1.0001) = (Inl x, []) \<and>
        status_code x = 400) \<and>
   (\<exists>x. predict (serving (engine_returning [])) jpeg_upload NaN = (Inl x, []) \<and>
        status_code x = 400)"
proof -
  have m: "model (serving (engine_returning [])) = Some (engine_returning [])"
    by (simp add: serving_def)
  have ct: "content_type jpeg_upload = Some ''image/jpeg''"
    by (simp add: jpeg_upload_def)
  have pre: "prefix ''image/'' ''image/jpeg''"
    by simp
  have inside: "\<exists>t. Fin 0 = Fin t \<and> 0 \<le> t \<and> t \<le> 1" "\<exists>t. Fin 1 = Fin t \<and> 0 \<le> t \<and> t \<le> 1"
    by simp_all
  have outside: "\<not> (\<exists>t. Fin (- 0.0001) = Fin t \<and> 0 \<le> t \<and> t \<le> 1)"
    "\<not> (\<exists>t. Fin 1.0001 = Fin t \<and> 0 \<le> t \<and> t \<le> 1)"
    "\<not> (\<exists>t. NaN = Fin t \<and> 0 \<le> t \<and> t \<le> 1)"
    by auto
  note th = threshold_bounds_inclusive [OF m]
  have "FileRead \<in> set (snd (predict (serving (engine_returning [])) jpeg_upload (Fin 0)))"
    using th [of "Fin 0" jpeg_upload] inside(1) ct pre by (simp only: if_True; simp)
  moreover
  have "FileRead \<in> set (snd (predict (serving (engine_returning [])) jpeg_upload (Fin 1)))"
    using th [of "Fin 1" jpeg_upload] inside(2) ct pre by (simp only: if_True; simp)
  moreover
  have "\<exists>x. predict (serving (engine_returning [])) jpeg_upload (Fin (- 0.0001)) = (Inl x, []) \<and>
        status_code x = 400 \<and>
        detail x = ''Confidence threshold must be between 0.0 and 1.0''"
    using th [of "Fin (- 0.0001)" jpeg_upload] outside(1) ct pre
    by (simp only: if_False; auto)
  moreover
  have "\<exists>x. predict (serving (engine_returning [])) jpeg_upload (Fin 1.0001) = (Inl x, []) \<and>
        status_code x = 400 \<and>
        detail x = ''Confidence threshold must be between 0.0 and 1.0''"
    using th [of "Fin 1.0001" jpeg_upload] outside(2) ct pre
    by (simp only: if_False; auto)
  moreover
  have "\<exists>x. predict (serving (engine_returning [])) text_upload (Fin 1.0001) = (Inl x, []) \<and>
        status_code x = 400"
    using th [of "Fin 1.0001" text_upload] outside(2)
    by (simp only: if_False; auto)
  moreover
  have "\<exists>x. predict (serving (engine_returning [])) jpeg_upload NaN = (Inl x, []) \<and>
        status_code x = 400"
    using th [of NaN jpeg_upload] outside(3)
    by (simp only: if_False; auto)
  ultimately show ?thesis
    using m ct pre by simp
qed

text \<open>
  C4. For an upload whose content type is absent or does not start with "image/", the
  engine is never invoked, and a service with a loaded model raises the 400 exception
  without any outside call. (With the model unset the earlier check of C1 answers 503.)
\<close>

theorem non_image_upload_rejected:
  assumes "content_type file = None \<or>
           (\<exists>ct. content_type file = Some ct \<and> \<not> prefix ''image/'' ct)"
  shows "ModelPredict \<notin> set (snd (predict w file threshold)) \<and>
         (\<forall>m. model w = Some m \<longrightarrow>
            predict w file threshold =
              (Inl \<lparr>status_code = 400,
                    detail = ''Invalid file type. Please upload an image file (JPEG/PNG)''\<rparr>,
               []))"
proof -
  have bad: "(case content_type file of None \<Rightarrow> True
             | Some ct \<Rightarrow> ct = [] \<or> \<not> startswith ct ''image/'')"
    using assms by (auto simp: startswith_prefix split: option.splits)
  show ?thesis
  proof (cases "model w")
    case None
    then show ?thesis by (simp add: predict_def)
  next
    case (Some m)
    then show ?thesis using bad by (simp add: predict_def)
  qed
qed

theorem non_image_upload_rejected_witness:
  "(content_type text_upload = None \<or>
    (\<exists>ct. content_type text_upload = Some ct \<and> \<not> prefix ''image/'' ct)) \<and>
   model (serving (engine_returning [note_row 0.9 3])) = Some (engine_returning [note_row 0.9 3]) \<and>
   predict (serving (engine_returning [note_row 0.9 3])) text_upload (Fin 0.25) =
     (Inl \<lparr>status_code = 400,
           detail = ''Invalid file type. Please upload an image file (JPEG/PNG)''\<rparr>,
      [])"
proof -
  have bad: "content_type text_upload = None \<or>
    (\<exists>ct. content_type text_upload = Some ct \<and> \<not> prefix ''image/'' ct)"
    by (simp add: text_upload_def)
  have m: "model (serving (engine_returning [note_row 0.9 3])) =
      Some (engine_returning [note_row 0.9 3])"
    by (simp add: serving_def)
  show ?thesis
    using bad m
      non_image_upload_rejected
        [OF bad, of "serving (engine_returning [note_row 0.9 3])" "Fin 0.25"]
    by simp
qed

text \<open>
  C5. In every response \<^verbatim>\<open>predict\<close> returns, \<^verbatim>\<open>num_detections\<close> is the length of
  \<^verbatim>\<open>detections\<close>.
\<close>

theorem num_detections_is_length:
  "predict w file threshold = (Inr p, calls) \<Longrightarrow>
   num_detections p = int (length (detections p))"
  by (drule predict_returns) auto

theorem num_detections_is_length_witness:
  "predict (serving (engine_returning two_notes)) jpeg_upload (Fin 0.25) =
     (Inr two_notes_response, [FileRead, ImageOpen, NpArray, ModelPredict]) \<and>
   num_detections two_notes_response = int (length (detections two_notes_response))"
  using two_notes_run num_detections_is_length [OF two_notes_run] by simp

text \<open>
  C6. A well-formed request (model loaded, image content type, threshold in \<open>[0, 1]\<close>,
  body read and decoded) for which the engine's first result has no boxes, or an empty
  box list, is answered with \<^verbatim>\<open>success=True\<close>, \<^verbatim>\<open>num_detections=0\<close>, an empty
  detection list and the message "Detection completed successfully".
\<close>

theorem zero_detections_ok:
  assumes "model w = Some m" "content_type file = Some ct" "prefix ''image/'' ct"
    and "0 \<le> t" "t \<le> 1"
    and "read file = Inr contents" "Image_open w contents = Inr img"
    and "np_array w img = Inr image_array"
    and "m image_array (Fin t) = Inr (result # others)"
    and "boxes result = None \<or> (\<exists>b. boxes result = Some b \<and> data b = [])"
  shows "predict w file (Fin t) =
           (Inr \<lparr>success = True, num_detections = 0, detections = [],
                 message = Some ''Detection completed successfully''\<rparr>,
            [FileRead, ImageOpen, NpArray, ModelPredict])"
proof -
  have "startswith ct ''image/''"
    using assms(3) by (simp add: startswith_prefix)
  moreover have "float_le (Fin 0) (Fin t)" "float_le (Fin t) (Fin 1)"
    using assms(4,5) by simp_all
  moreover have "extract_detections (result # others) = Inr []"
    using assms(10) by (auto simp: extract_detections_def py_index_head)
  ultimately show ?thesis
    using predict_reaches_engine [OF assms(1,2) _ _ _ assms(6-9)] by simp
qed

theorem zero_detections_ok_witness:
  "model (serving (engine_returning [])) = Some (engine_returning []) \<and>
   content_type jpeg_upload = Some ''image/jpeg'' \<and> prefix ''image/'' ''image/jpeg'' \<and>
   read jpeg_upload = Inr [255, 216, 255] \<and>
   engine_returning [] (3 :: nat) (Fin 0.25) = Inr [\<lparr>boxes = Some \<lparr>data = []\<rparr>\<rparr>] \<and>
   predict (serving (engine_returning [])) jpeg_upload (Fin 0.25) =
     (Inr \<lparr>success = True, num_detections = 0, detections = [],
           message = Some ''Detection completed successfully''\<rparr>,
      [FileRead, ImageOpen, NpArray, ModelPredict])"
  using zero_detections_ok
    [of "serving (engine_returning [])" "engine_returning []" jpeg_upload "''image/jpeg''"
        "0.25" "[255, 216, 255]" 3 3 "\<lparr>boxes = Some \<lparr>data = []\<rparr>\<rparr>" "[]"]
  by (simp add: fixture_defs)

text \<open>
  C7. Every response returned holds one detection per row of the engine's first result,
  in the engine's order: the \<open>i\<close>-th detection carries the score and the corners of the
  \<open>i\<close>-th row and the name that \<^verbatim>\<open>class_names\<close> gives for its class id.
\<close>

theorem detections_keep_engine_order:
  assumes "predict w file threshold = (Inr p, calls)"
  shows "\<exists>m contents img image_array result others.
           model w = Some m \<and> read file = Inr contents \<and> Image_open w contents = Inr img \<and>
           np_array w img = Inr image_array \<and>
           m image_array threshold = Inr (result # others) \<and>
           (let rows = (case boxes result of None \<Rightarrow> [] | Some b \<Rightarrow> data b)
            in length (detections p) = length rows \<and>
               (\<forall>i<length rows.
                  py_index class_names (row_cls (rows ! i)) =
                    Inr (class_name (detections p ! i)) \<and>
                  confidence (detections p ! i) = row_conf (rows ! i) \<and>
                  bounding_box (detections p ! i) =
                    \<lparr>x1 = row_x1 (rows ! i), y1 = row_y1 (rows ! i),
                     x2 = row_x2 (rows ! i), y2 = row_y2 (rows ! i)\<rparr>))"
proof -
  from predict_returns [OF assms]
  obtain m contents img image_array results dets where
    run: "model w = Some m" "read file = Inr contents" "Image_open w contents = Inr img"
      "np_array w img = Inr image_array" "m image_array threshold = Inr results"
    and dets: "extract_detections results = Inr dets"
    and p: "detections p = dets"
    by auto
  from extract_detections_returns [OF dets] p run show ?thesis
    by blast
qed

theorem detections_keep_engine_order_witness:
  "predict (serving (engine_returning two_notes)) jpeg_upload (Fin 0.25) =
     (Inr two_notes_response, [FileRead, ImageOpen, NpArray, ModelPredict]) \<and>
   length (detections two_notes_response) = length two_notes \<and>
   py_index class_names (row_cls (two_notes ! 0)) =
     Inr (class_name (detections two_notes_response ! 0)) \<and>
   confidence (detections two_notes_response ! 0) = row_conf (two_notes ! 0) \<and>
   py_index class_names (row_cls (two_notes ! 1)) =
     Inr (class_name (detections two_notes_response ! 1)) \<and>
   confidence (detections two_notes_response ! 1) = row_conf (two_notes ! 1) \<and>
   row_conf (two_notes ! 0) = Fin 0.4 \<and> row_conf (two_notes ! 1) = Fin 0.9"
proof -
  from detections_keep_engine_order [OF two_notes_run]
  have "length (detections two_notes_response) = length two_notes \<and>
     (\<forall>i<length two_notes.
        py_index class_names (row_cls (two_notes ! i)) =
          Inr (class_name (detections two_notes_response ! i)) \<and>
        confidence (detections two_notes_response ! i) = row_conf (two_notes ! i) \<and>
        bounding_box (detections two_notes_response ! i) =
          \<lparr>x1 = row_x1 (two_notes ! i), y1 = row_y1 (two_notes ! i),
           x2 = row_x2 (two_notes ! i), y2 = row_y2 (two_notes ! i)\<rparr>)"
    by (auto simp: serving_def engine_returning_def)
  moreover have "length two_notes = 2"
    by (simp add: two_notes_def)
  moreover have "row_conf (two_notes ! 0) = Fin 0.4" "row_conf (two_notes ! 1) = Fin 0.9"
    by (simp_all add: two_notes_def note_row_def)
  ultimately show ?thesis
    using two_notes_run by simp
qed

text \<open>
  C8. For a request that reaches the decoding step (model loaded, image content type,
  threshold in \<open>[0, 1]\<close>, body read): when \<^verbatim>\<open>Image.open\<close> or \<^verbatim>\<open>np.array\<close> raises
  \<open>e\<close>, the request fails with status 500 and the detail "Error processing image: "
  followed by \<^verbatim>\<open>str(e)\<close>, no response is returned and the engine is not invoked. An
  engine that raises the same exception on a decodable body gets the same answer.
\<close>

theorem decode_failure_is_500:
  fixes w :: "('img, 'arr) env"
  assumes "model w = Some m" "content_type file = Some ct" "prefix ''image/'' ct"
    and "0 \<le> t" "t \<le> 1"
    and "read file = Inr contents"
    and "Image_open w contents = Inl e \<or>
         (\<exists>img. Image_open w contents = Inr img \<and> np_array w img = Inl e)"
  shows "fst (predict w file (Fin t)) =
           Inl \<lparr>status_code = 500, detail = ''Error processing image: '' @ str e\<rparr> \<and>
         ModelPredict \<notin> set (snd (predict w file (Fin t))) \<and>
         (\<forall>(w' :: ('img, 'arr) env) m' img image_array.
            model w' = Some m' \<and> Image_open w' contents = Inr img \<and>
            np_array w' img = Inr image_array \<and> m' image_array (Fin t) = Inl e \<longrightarrow>
            fst (predict w' file (Fin t)) = fst (predict w file (Fin t)))"
proof -
  note ct = image_content_type [OF assms(2,3)]
  have range: "float_le (Fin 0) (Fin t) \<and> float_le (Fin t) (Fin 1)"
    using assms(4,5) by simp
  have here: "fst (predict w file (Fin t)) =
           Inl \<lparr>status_code = 500, detail = ''Error processing image: '' @ str e\<rparr> \<and>
         ModelPredict \<notin> set (snd (predict w file (Fin t)))"
    using assms(1,6,7) ct range by (auto simp: predict_def predict_try_def)
  have "fst (predict w' file (Fin t)) =
           Inl \<lparr>status_code = 500, detail = ''Error processing image: '' @ str e\<rparr>"
    if "model w' = Some m'" "Image_open w' contents = Inr img"
      "np_array w' img = Inr image_array" "m' image_array (Fin t) = Inl e"
    for w' :: "('img, 'arr) env" and m' img image_array
    using that assms(6) ct range by (simp add: predict_def predict_try_def)
  with here show ?thesis by auto
qed

theorem decode_failure_is_500_witness:
  "model (serving (engine_returning two_notes)) = Some (engine_returning two_notes) \<and>
   content_type corrupt_upload = Some ''image/jpeg'' \<and> prefix ''image/'' ''image/jpeg'' \<and>
   read corrupt_upload = Inr [] \<and>
   Image_open (serving (engine_returning two_notes)) [] =
     Inl (Exception ''cannot identify image file'') \<and>
   fst (predict (serving (engine_returning two_notes)) corrupt_upload (Fin 0.25)) =
     Inl \<lparr>status_code = 500,
          detail = ''Error processing image: cannot identify image file''\<rparr> \<and>
   ModelPredict \<notin> set (snd (predict (serving (engine_returning two_notes)) corrupt_upload (Fin 0.25)))"
  using decode_failure_is_500
    [of "serving (engine_returning two_notes)" "engine_returning two_notes" corrupt_upload
        "''image/jpeg''" "0.25" "[]" "Exception ''cannot identify image file''"]
  by (simp add: serving_def corrupt_upload_def pil_open_def)

text \<open>
  C9. The engine being a function of the pixel array and the threshold, and the handler
  leaving the environment as it is: two calls with the same body bytes and the same
  threshold that both return a response return the same detection list, whatever else
  differs between the two uploads.
\<close>

theorem same_bytes_same_detections:
  assumes "read file1 = read file2"
    and "predict w file1 threshold = (Inr p1, calls1)"
    and "predict w file2 threshold = (Inr p2, calls2)"
  shows "detections p1 = detections p2"
proof -
  from predict_returns [OF assms(2)]
  obtain m contents img image_array results dets where
    run1: "model w = Some m" "read file1 = Inr contents" "Image_open w contents = Inr img"
      "np_array w img = Inr image_array" "m image_array threshold = Inr results"
      "extract_detections results = Inr dets" "detections p1 = dets"
    by auto
  from predict_returns [OF assms(3)]
  obtain m' contents' img' image_array' results' dets' where
    run2: "model w = Some m'" "read file2 = Inr contents'" "Image_open w contents' = Inr img'"
      "np_array w img' = Inr image_array'" "m' image_array' threshold = Inr results'"
      "extract_detections results' = Inr dets'" "detections p2 = dets'"
    by auto
  from run1 run2 assms(1) show ?thesis by simp
qed

theorem same_bytes_same_detections_witness:
  "read jpeg_upload = read png_upload \<and> content_type jpeg_upload \<noteq> content_type png_upload \<and>
   predict (serving (engine_returning two_notes)) jpeg_upload (Fin 0.25) =
     (Inr two_notes_response, [FileRead, ImageOpen, NpArray, ModelPredict]) \<and>
   predict (serving (engine_returning two_notes)) png_upload (Fin 0.25) =
     (Inr two_notes_response, [FileRead, ImageOpen, NpArray, ModelPredict]) \<and>
   detections two_notes_response = detections two_notes_response"
proof -
  have same: "read jpeg_upload = read png_upload"
    by (simp add: jpeg_upload_def png_upload_def)
  from same_bytes_same_detections [OF same two_notes_run two_notes_png_run] same
  show ?thesis
    using two_notes_run two_notes_png_run by (simp add: jpeg_upload_def png_upload_def)
qed

text \<open>
  C10. Every response \<^verbatim>\<open>predict\<close> returns has \<^verbatim>\<open>success\<close> true; every other
  outcome is a raised \<^verbatim>\<open>HTTPException\<close>.
\<close>

theorem response_success_true:
  "predict w file threshold = (Inr p, calls) \<Longrightarrow> success p"
  by (drule predict_returns) auto

theorem response_success_true_witness:
  "predict (serving (engine_returning two_notes)) jpeg_upload (Fin 0.25) =
     (Inr two_notes_response, [FileRead, ImageOpen, NpArray, ModelPredict]) \<and>
   success two_notes_response"
  using two_notes_run response_success_true [OF two_notes_run] by simp

end
